theory Spec2Isabelle
  imports Complex_Main
begin

section \<open>The type language of the exercises\<close>

text \<open>
  Every file of the repository is a set of TypeScript type declarations (plus two small
  generic functions).  A type alias with parameters is a function from types to types,
  evaluated by the type checker; it is embedded here as a HOL function over a datatype of
  types.  The datatype covers the type forms that the exercise files write or instantiate:

  \<^item> \<open>string\<close>, \<open>number\<close>, \<open>unknown\<close>, and the singleton literal types
    (\<open>'Caprese Salad'\<close>, \<open>14.99\<close>, \<open>true\<close>);
  \<^item> \<open>Promise<T>\<close>;
  \<^item> object types \<open>{ k1: T1; ...; kn: Tn }\<close> with identifier-named properties, as an
    association list in declaration order;
  \<^item> function types \<open>(p1: T1, ..., pn: Tn) => R\<close>;
  \<^item> union types \<open>A | B\<close>.

  \<open>boolean\<close> is the union \<open>true | false\<close>, as in TypeScript itself.  A number literal is
  identified by its value.  \<open>any\<close>, \<open>never\<close>, intersections, optional members and index
  signatures are outside the modelled language.  Every value of the datatype is a finite
  tree, so a type that mentions itself (a cyclic interface) is not a value of it.
\<close>

datatype ty =
    TString
  | TNumber
  | TUnknown
  | TStrLit string
  | TNumLit rat
  | TBoolLit bool
  | TPromise ty
  | TObject "(string \<times> ty) list"
  | TFun "ty list" ty
  | TUnion ty ty

definition TBoolean :: ty where
  "TBoolean = TUnion (TBoolLit True) (TBoolLit False)"

fun is_union :: "ty \<Rightarrow> bool" where
  "is_union (TUnion a b) = True"
| "is_union _ = False"

section \<open>MyAwaited\<close>

text \<open>
  \<^verbatim>\<open>
  type MyAwaited<T> = T extends Promise<infer U> ? MyAwaited<U>
  : T extends { then: (onfulfilled: (arg: infer U) => any ) => any } ? MyAwaited<U> : T
  \<close>

  The two \<open>extends ... infer U\<close> tests are the functions \<open>match_promise\<close> and
  \<open>match_thenable\<close>: \<open>Some U\<close> when the test succeeds with \<open>U\<close> inferred, \<open>None\<close> when it
  fails.

  \<open>T extends Promise<infer U>\<close> succeeds on \<open>Promise<U>\<close>.  An object type of the
  modelled language does not pass it structurally: in the ES2015 and later library
  declarations \<open>Promise\<close> has a member keyed by the symbol \<open>Symbol.toStringTag\<close>, and
  modelled properties have identifier names.
\<close>

fun match_promise :: "ty \<Rightarrow> ty option" where
  "match_promise (TPromise U) = Some U"
| "match_promise _ = None"

text \<open>
  Every function type has, besides its call signature, the members of the global
  interfaces \<open>Function\<close> and \<open>Object\<close> (\<open>length\<close>, \<open>toString\<close>, \<open>call\<close>, ...), so a function
  type is assignable to an object type such as \<open>{ length: number }\<close>.  Those interfaces
  are declared in the compiler's library files, not in the repository, and are taken as a
  parameter: \<open>fm fs\<close> says that a function type is assignable to the object type with
  the non-empty property list \<open>fs\<close>.  Every definition and theorem below holds for each
  such table.
\<close>

type_synonym function_members = "(string \<times> ty) list \<Rightarrow> bool"

text \<open>
  \<open>T extends { then: (onfulfilled: (arg: infer U) => any) => any }\<close> looks at the type
  \<open>F\<close> of the property \<open>then\<close> of an object type.

  \<open>cb_infer p\<close> collects what the parameter type \<open>p\<close> of \<open>then\<close> contributes to \<open>U\<close>: the
  first parameter of a callback, and for a union of callbacks the union of their
  contributions.  \<open>cb_accepts fm p\<close> says whether a one-argument callback
  \<open>(arg: U) => any\<close> may be passed where \<open>p\<close> is expected: \<open>p\<close> is a callback type with at
  least one parameter, or \<open>unknown\<close>, or the empty object type \<open>{}\<close>, or an object type
  all of whose properties every function has (\<open>fm\<close>), or a union with such a member.
\<close>

fun cb_infer :: "ty \<Rightarrow> ty option" where
  "cb_infer (TFun (q # qs) r) = Some q"
| "cb_infer (TUnion a b) =
     (case cb_infer a of
        None \<Rightarrow> cb_infer b
      | Some x \<Rightarrow> (case cb_infer b of None \<Rightarrow> Some x | Some y \<Rightarrow> Some (TUnion x y)))"
| "cb_infer _ = None"

fun cb_accepts :: "function_members \<Rightarrow> ty \<Rightarrow> bool" where
  "cb_accepts fm (TFun ps r) = (ps \<noteq> [])"
| "cb_accepts fm TUnknown = True"
| "cb_accepts fm (TObject fs) = (fs = [] \<or> fm fs)"
| "cb_accepts fm (TUnion a b) = (cb_accepts fm a \<or> cb_accepts fm b)"
| "cb_accepts fm _ = False"

text \<open>
  \<open>then_accepts fm F\<close>: the type \<open>F\<close> of \<open>then\<close> is assignable to
  \<open>(onfulfilled: (arg: U) => any) => any\<close>.  \<open>F\<close> is a function type with at most one
  parameter (a function with fewer parameters is assignable, one that requires more is
  not) whose parameter accepts the callback; the return type of \<open>F\<close> is not inspected,
  the target's being \<open>any\<close>.  A union is assignable when both members are.
  \<open>then_infer F\<close> is the inference for \<open>U\<close>.
\<close>

fun then_accepts :: "function_members \<Rightarrow> ty \<Rightarrow> bool" where
  "then_accepts fm (TFun [] r) = True"
| "then_accepts fm (TFun [p] r) = cb_accepts fm p"
| "then_accepts fm (TFun (p # p' # ps) r) = False"
| "then_accepts fm (TUnion a b) = (then_accepts fm a \<and> then_accepts fm b)"
| "then_accepts fm _ = False"

fun then_infer :: "ty \<Rightarrow> ty option" where
  "then_infer (TFun (p # ps) r) = cb_infer p"
| "then_infer (TUnion a b) =
     (case then_infer a of
        None \<Rightarrow> then_infer b
      | Some x \<Rightarrow> (case then_infer b of None \<Rightarrow> Some x | Some y \<Rightarrow> Some (TUnion x y)))"
| "then_infer _ = None"

text \<open>An \<open>infer U\<close> for which nothing was inferred is \<open>unknown\<close>.\<close>

fun match_thenable :: "function_members \<Rightarrow> ty \<Rightarrow> ty option" where
  "match_thenable fm (TObject fs) =
     (case map_of fs ''then'' of
        None \<Rightarrow> None
      | Some F \<Rightarrow>
          if then_accepts fm F
          then Some (case then_infer F of None \<Rightarrow> TUnknown | Some U \<Rightarrow> U)
          else None)"
| "match_thenable fm _ = None"

text \<open>
  \<open>T\<close> is a naked type parameter on the left of \<open>extends\<close>, so the conditional type is
  distributive: on a union it is evaluated for each member and the results are united.
  The model keeps the union of the results as written; TypeScript further merges equal
  members and absorbs a literal into its base type, which maps equal model types to
  equal types.

  \<open>MyAwaited\<close> is the type the alias denotes, by its three rules alone.  The checker
  evaluates it by a loop with a bound on the number of steps; that loop is \<open>tail_loop\<close>
  below.
\<close>

lemma size_map_of:
  "map_of fs k = Some v \<Longrightarrow> size v < Suc (size_list (size_prod (\<lambda>_. 0) size) fs)"
  by (induction fs) (auto split: if_splits)

lemma size_cb_infer: "cb_infer p = Some u \<Longrightarrow> size u < size p"
proof (induction p arbitrary: u)
  case (TFun ps r)
  then show ?case by (cases ps) auto
next
  case (TUnion a b)
  then show ?case
    by (cases "cb_infer a"; cases "cb_infer b") fastforce+
qed auto

lemma size_then_infer: "then_infer F = Some u \<Longrightarrow> size u < size F"
proof (induction F arbitrary: u)
  case (TFun ps r)
  then show ?case by (cases ps) (auto dest: size_cb_infer)
next
  case (TUnion a b)
  then show ?case
    by (cases "then_infer a"; cases "then_infer b") fastforce+
qed auto

lemma size_match_promise: "match_promise T = Some U \<Longrightarrow> size U < size T"
  by (cases T) auto

lemma size_match_thenable:
  assumes m: "match_thenable fm T = Some U"
  shows "size U < size T"
proof -
  from m obtain fs where T: "T = TObject fs" by (cases T) auto
  from m T obtain F where F: "map_of fs ''then'' = Some F"
    and U: "U = (case then_infer F of None \<Rightarrow> TUnknown | Some U \<Rightarrow> U)"
    by (auto split: option.splits if_splits)
  have "size F < size T" using size_map_of [OF F] T by simp
  moreover have "size U \<le> size F"
    using U size_then_infer [of F] by (cases "then_infer F") auto
  ultimately show ?thesis by simp
qed

function MyAwaited :: "function_members \<Rightarrow> ty \<Rightarrow> ty" where
  "MyAwaited fm T =
     (case T of
        TUnion a b \<Rightarrow> TUnion (MyAwaited fm a) (MyAwaited fm b)
      | _ \<Rightarrow>
         (case match_promise T of
            Some U \<Rightarrow> MyAwaited fm U
          | None \<Rightarrow>
             (case match_thenable fm T of
                Some U \<Rightarrow> MyAwaited fm U
              | None \<Rightarrow> T)))"
  by pat_completeness auto
termination
  by (relation "measure (\<lambda>(fm, T). size T)")
     (auto simp del: match_promise.simps match_thenable.simps
           dest: size_match_promise size_match_thenable)

declare MyAwaited.simps [simp del]










text \<open>The members of a type: a union flattened, any other type by itself.\<close>

fun members :: "ty \<Rightarrow> ty list" where
  "members (TUnion a b) = members a @ members b"
| "members T = [T]"

subsection \<open>Unfolding lemmas\<close>

lemma MyAwaited_union:
  "MyAwaited fm (TUnion a b) = TUnion (MyAwaited fm a) (MyAwaited fm b)"
  by (subst MyAwaited.simps) simp

lemma MyAwaited_non_union:
  "\<not> is_union T \<Longrightarrow>
   MyAwaited fm T =
     (case match_promise T of
        Some U \<Rightarrow> MyAwaited fm U
      | None \<Rightarrow> (case match_thenable fm T of Some U \<Rightarrow> MyAwaited fm U | None \<Rightarrow> T))"
  by (subst MyAwaited.simps) (cases T; simp)

lemma MyAwaited_promise: "MyAwaited fm (TPromise U) = MyAwaited fm U"
  by (simp add: MyAwaited_non_union)

lemma MyAwaited_base:
  "\<not> is_union T \<Longrightarrow> match_promise T = None \<Longrightarrow> match_thenable fm T = None \<Longrightarrow>
   MyAwaited fm T = T"
  by (simp add: MyAwaited_non_union)

lemma match_union [simp]:
  "is_union T \<Longrightarrow> match_promise T = None"
  "is_union T \<Longrightarrow> match_thenable fm T = None"
  by (cases T; simp)+

lemma MyAwaited_rule1:
  "\<not> is_union T \<Longrightarrow> match_promise T = Some U \<Longrightarrow> MyAwaited fm T = MyAwaited fm U"
  by (subst MyAwaited_non_union) simp_all

lemma MyAwaited_rule2:
  "\<not> is_union T \<Longrightarrow> match_promise T = None \<Longrightarrow> match_thenable fm T = Some U \<Longrightarrow>
   MyAwaited fm T = MyAwaited fm U"
  by (subst MyAwaited_non_union) simp_all

lemma MyAwaited_rule3:
  "\<not> is_union T \<Longrightarrow> match_promise T = None \<Longrightarrow> match_thenable fm T = None \<Longrightarrow>
   MyAwaited fm T = T"
  by (subst MyAwaited_non_union) simp_all






text \<open>
  Induction along the recursion of \<open>MyAwaited\<close>: the members of a union, the type a
  wrapper unwraps to, and the base case.
\<close>

lemma unwrap_induct [case_names union promise thenable base]:
  assumes u: "\<And>a b. P a \<Longrightarrow> P b \<Longrightarrow> P (TUnion a b)"
    and p: "\<And>T U. \<not> is_union T \<Longrightarrow> match_promise T = Some U \<Longrightarrow> P U \<Longrightarrow> P T"
    and t: "\<And>T U. \<not> is_union T \<Longrightarrow> match_promise T = None \<Longrightarrow>
              match_thenable fm T = Some U \<Longrightarrow> P U \<Longrightarrow> P T"
    and b: "\<And>T. \<not> is_union T \<Longrightarrow> match_promise T = None \<Longrightarrow>
              match_thenable fm T = None \<Longrightarrow> P T"
  shows "P T"
proof (induction T rule: measure_induct_rule [of size])
  case (less T)
  show ?case
  proof (cases "is_union T")
    case True
    then obtain a b where T: "T = TUnion a b" by (cases T) auto
    then have "P a" "P b" using less by simp_all
    then show ?thesis using u T by simp
  next
    case nu: False
    show ?thesis
    proof (cases "match_promise T")
      case (Some U)
      then show ?thesis using p [OF nu Some] less size_match_promise by blast
    next
      case None
      show ?thesis
      proof (cases "match_thenable fm T")
        case (Some U)
        then show ?thesis using t [OF nu None Some] less size_match_thenable by blast
      next
        case N2: None
        then show ?thesis using b [OF nu None N2] by simp
      qed
    qed
  qed
qed

lemma MyAwaited_settled:
  "match_promise (MyAwaited fm T) = None \<and> match_thenable fm (MyAwaited fm T) = None"
proof (induction T rule: unwrap_induct [where fm = fm])
  case (union a b)
  show ?case by (simp add: MyAwaited_union)
next
  case (promise T U)
  then show ?case by (simp add: MyAwaited_rule1)
next
  case (thenable T U)
  then show ?case by (simp add: MyAwaited_rule2)
next
  case (base T)
  then show ?case by (simp add: MyAwaited_rule3)
qed

lemma MyAwaited_twice: "MyAwaited fm (MyAwaited fm T) = MyAwaited fm T"
proof (induction T rule: unwrap_induct [where fm = fm])
  case (union a b)
  then show ?case by (simp add: MyAwaited_union)
next
  case (promise T U)
  then show ?case by (simp add: MyAwaited_rule1)
next
  case (thenable T U)
  then show ?case by (simp add: MyAwaited_rule2)
next
  case (base T)
  then show ?case by (simp add: MyAwaited_rule3)
qed

lemma members_MyAwaited:
  "m \<in> set (members (MyAwaited fm T)) \<Longrightarrow>
   \<not> is_union m \<and> match_promise m = None \<and> match_thenable fm m = None"
proof (induction T rule: unwrap_induct [where fm = fm])
  case (union a b)
  then show ?case by (auto simp: MyAwaited_union)
next
  case (promise T U)
  then show ?case by (simp add: MyAwaited_rule1)
next
  case (thenable T U)
  then show ?case by (simp add: MyAwaited_rule2)
next
  case (base T)
  then have "members (MyAwaited fm T) = [T]" by (cases T) (simp_all add: MyAwaited_rule3)
  with base show ?case by simp
qed

subsection \<open>Plain types and towers\<close>














subsection \<open>Claims about MyAwaited\<close>




text \<open>
  C2: in the thenable rule \<open>U\<close> comes from the parameter of the callback that \<open>then\<close>
  receives, not from what \<open>then\<close> returns.  For every object type whose \<open>then\<close> takes a
  callback with the single argument type \<open>string\<close>, whatever \<open>then\<close> and the callback
  return and whatever other members the object has, \<open>MyAwaited\<close> is \<open>string\<close>; in general
  it is \<open>MyAwaited\<close> of the callback's argument type.
\<close>

theorem MyAwaited_thenable_callback:
  "(map_of fs ''then'' = Some (TFun [TFun [TString] r'] r) \<longrightarrow>
      MyAwaited fm (TObject fs) = TString)
   \<and> (map_of fs ''then'' = Some (TFun [TFun [q] r'] r) \<longrightarrow>
      MyAwaited fm (TObject fs) = MyAwaited fm q)"
proof -
  have g: "MyAwaited fm (TObject fs) = MyAwaited fm q"
    if "map_of fs ''then'' = Some (TFun [TFun [q] r'] r)" for q
    using that by (simp add: MyAwaited_rule2)
  have "MyAwaited fm TString = TString" by (simp add: MyAwaited_base)
  with g [of TString] g [of q] show ?thesis by simp
qed

theorem MyAwaited_thenable_callback_witness:
  "MyAwaited (\<lambda>fs. False) (TObject [(''then'', TFun [TFun [TString] TUnknown] TNumber)])
     = TString
   \<and> MyAwaited (\<lambda>fs. False) (TObject [(''then'', TFun [TFun [TString] TUnknown] TNumber)])
     \<noteq> TNumber
   \<and> MyAwaited (\<lambda>fs. False)
        (TObject [(''id'', TNumber), (''then'', TFun [TFun [TNumber] TString] TString)])
     = TNumber"
proof -
  have "MyAwaited (\<lambda>fs. False) TNumber = TNumber" by (simp add: MyAwaited_base)
  then show ?thesis
    using MyAwaited_thenable_callback
        [where fs = "[(''then'', TFun [TFun [TString] TUnknown] TNumber)]"
           and r' = TUnknown and r = TNumber and q = TString and fm = "\<lambda>fs. False"]
      MyAwaited_thenable_callback
        [where fs = "[(''id'', TNumber), (''then'', TFun [TFun [TNumber] TString] TString)]"
           and r' = TString and r = TString and q = TNumber and fm = "\<lambda>fs. False"]
    by simp
qed




text \<open>
  C9: \<open>MyAwaited\<close> is idempotent.  The result of \<open>MyAwaited\<close> is never a \<open>Promise\<close> or a
  matching thenable, nor is any member of a union it returns, so a second application
  changes nothing.
\<close>

theorem MyAwaited_idempotent:
  "MyAwaited fm (MyAwaited fm T) = MyAwaited fm T
   \<and> match_promise (MyAwaited fm T) = None
   \<and> match_thenable fm (MyAwaited fm T) = None
   \<and> list_all (\<lambda>m. match_promise m = None \<and> match_thenable fm m = None)
        (members (MyAwaited fm T))"
  using MyAwaited_twice [of fm T] MyAwaited_settled [of fm T] members_MyAwaited [of _ fm T]
  by (simp add: list_all_iff)

theorem MyAwaited_idempotent_witness:
  "MyAwaited (\<lambda>fs. False)
      (MyAwaited (\<lambda>fs. False) (TUnion (TPromise (TPromise TString)) TNumber))
     = MyAwaited (\<lambda>fs. False) (TUnion (TPromise (TPromise TString)) TNumber)
   \<and> MyAwaited (\<lambda>fs. False) (TUnion (TPromise (TPromise TString)) TNumber)
     = TUnion TString TNumber"
  using MyAwaited_idempotent
    [where T = "TUnion (TPromise (TPromise TString)) TNumber" and fm = "\<lambda>fs. False"]
  by (simp add: MyAwaited_union MyAwaited_promise MyAwaited_base)

section \<open>Assignability and property lookup\<close>

text \<open>
  \<open>assignable S T\<close> is the relation \<open>S extends T\<close> that a constraint on a type parameter
  checks, for the modelled language under \<open>strictFunctionTypes\<close>:

  \<^item> every type is assignable to \<open>unknown\<close>;
  \<^item> a union is assignable when each member is; a type is assignable to a union when it
    is assignable to a member;
  \<^item> a literal type is assignable to itself and to its base type;
  \<^item> \<open>Promise\<close> is covariant;
  \<^item> an object type is assignable to an object type when it has every property the
    target asks for, at an assignable type (supplementary properties are allowed);
  \<^item> a function type is assignable to one with at least as many parameters, parameters
    compared contravariantly and results covariantly.

  The global interfaces behind \<open>string\<close>, \<open>number\<close>, function types and \<open>Promise\<close>
  (\<open>String\<close>, \<open>Function\<close>, ...) are not part of the model: such a type is assignable to an
  object type only when the object type asks for no property.  None of those interfaces
  has a property named \<open>strict\<close>.  The checker's additional rule for assigning an
  object type to a discriminated union of object types is not modelled either; the only
  constraint in the exercises, \<open>{ strict: boolean }\<close>, is a single object type.
\<close>

lemma size_in_fields:
  "(k, t) \<in> set gs \<Longrightarrow> size t < Suc (size_list (size_prod (\<lambda>_. 0) size) gs)"
  by (induction gs) auto

lemma size_in_params: "p \<in> set ps \<Longrightarrow> size p < Suc (size_list size ps)"
  by (induction ps) auto

lemma size_in_zip:
  "(p, q) \<in> set (zip ps qs) \<Longrightarrow>
   size p < Suc (size_list size ps) \<and> size q < Suc (size_list size qs)"
  using size_in_params [of p ps] size_in_params [of q qs]
  by (auto dest: set_zip_leftD set_zip_rightD)

function (sequential) assignable :: "ty \<Rightarrow> ty \<Rightarrow> bool" where
  "assignable S TUnknown = True"
| "assignable (TUnion a b) T = (assignable a T \<and> assignable b T)"
| "assignable S (TUnion c d) = (assignable S c \<or> assignable S d)"
| "assignable TUnknown T = False"
| "assignable TString TString = True"
| "assignable (TStrLit s) TString = True"
| "assignable (TStrLit s) (TStrLit t) = (s = t)"
| "assignable TNumber TNumber = True"
| "assignable (TNumLit n) TNumber = True"
| "assignable (TNumLit n) (TNumLit m) = (n = m)"
| "assignable (TBoolLit b) (TBoolLit c) = (b = c)"
| "assignable (TPromise A) (TPromise B) = assignable A B"
| "assignable (TObject fs) (TObject gs) =
     list_all (\<lambda>(k, t). case map_of fs k of None \<Rightarrow> False | Some s \<Rightarrow> assignable s t) gs"
| "assignable (TFun ps r) (TFun qs r') =
     (length ps \<le> length qs
      \<and> list_all (\<lambda>(p, q). assignable q p) (zip ps qs)
      \<and> assignable r r')"
| "assignable S (TObject gs) = (gs = [])"
| "assignable S T = False"
  by pat_completeness auto

termination
  by (relation "measure (\<lambda>(S, T). size S + size T)")
     (auto dest!: size_in_fields size_map_of size_in_zip)

text \<open>
  \<open>T[k]\<close>: the type of property \<open>k\<close> of an object type; on a union, the union of the
  members' property types.  \<open>None\<close> when a member has no such property (the checker
  reports an error).
\<close>

fun indexed_access :: "ty \<Rightarrow> string \<Rightarrow> ty option" where
  "indexed_access (TObject fs) k = map_of fs k"
| "indexed_access (TUnion a b) k =
     (case indexed_access a k of
        None \<Rightarrow> None
      | Some x \<Rightarrow> (case indexed_access b k of None \<Rightarrow> None | Some y \<Rightarrow> Some (TUnion x y)))"
| "indexed_access T k = None"

section \<open>Instantiating the generic type aliases\<close>

text \<open>
  An alias applied to type arguments is checked, not run: the checker either resolves the
  instantiation to a type or rejects it with a diagnostic.  The rejection is the \<open>Inl\<close>
  value of the result.
\<close>

datatype check_error = WrongArity | ConstraintViolation | NoSuchProperty

text \<open>The type of property \<open>k\<close> of a resolved instantiation.\<close>

fun field_type :: "check_error + ty \<Rightarrow> string \<Rightarrow> ty option" where
  "field_type (Inr T) k = indexed_access T k"
| "field_type (Inl e) k = None"

fun accepted :: "check_error + ty \<Rightarrow> bool" where
  "accepted (Inr T) = True"
| "accepted (Inl e) = False"

subsection \<open>GroceryItem, GroceryStore, CapreseSalad\<close>

text \<open>
  \<^verbatim>\<open>
  type GroceryItem<Name, Price, InStock> = { name: Name, price: Price, inStock: InStock }
  type GroceryStore<Name, City> = { name: Name; city: City; };
  type CapreseSalad = GroceryItem<'Caprese Salad', 14.99, true>;
  \<close>
  No parameter has a constraint or a default, so exactly three (two) arguments are
  required and any types are taken.
\<close>

fun GroceryItem :: "ty list \<Rightarrow> check_error + ty" where
  "GroceryItem [Name, Price, InStock] =
     Inr (TObject [(''name'', Name), (''price'', Price), (''inStock'', InStock)])"
| "GroceryItem args = Inl WrongArity"

fun GroceryStore :: "ty list \<Rightarrow> check_error + ty" where
  "GroceryStore [Name, City] = Inr (TObject [(''name'', Name), (''city'', City)])"
| "GroceryStore args = Inl WrongArity"

definition CapreseSalad :: "check_error + ty" where
  "CapreseSalad = GroceryItem [TStrLit ''Caprese Salad'', TNumLit 14.99, TBoolLit True]"

subsection \<open>ApiRequest and TSConfig\<close>

text \<open>
  \<^verbatim>\<open>
  type ApiRequest<Data, Method = 'GET'> = { data: Data; method: Method }
  type TSConfig <Param extends { strict: boolean} = { strict: true}> = {
    strict: Param['strict']
  };
  \<close>
  An omitted trailing argument is replaced by the parameter's default; a supplied argument
  is checked against the parameter's constraint.
\<close>

definition ApiRequest_Method_default :: ty where
  "ApiRequest_Method_default = TStrLit ''GET''"

definition ApiRequest_body :: "ty \<Rightarrow> ty \<Rightarrow> ty" where
  "ApiRequest_body Data Method = TObject [(''data'', Data), (''method'', Method)]"

fun ApiRequest :: "ty list \<Rightarrow> check_error + ty" where
  "ApiRequest [Data] = Inr (ApiRequest_body Data ApiRequest_Method_default)"
| "ApiRequest [Data, Method] = Inr (ApiRequest_body Data Method)"
| "ApiRequest args = Inl WrongArity"

definition TSConfig_constraint :: ty where
  "TSConfig_constraint = TObject [(''strict'', TBoolean)]"

definition TSConfig_default :: ty where
  "TSConfig_default = TObject [(''strict'', TBoolLit True)]"

definition TSConfig_body :: "ty \<Rightarrow> check_error + ty" where
  "TSConfig_body Param =
     (case indexed_access Param ''strict'' of
        None \<Rightarrow> Inl NoSuchProperty
      | Some s \<Rightarrow> Inr (TObject [(''strict'', s)]))"

fun TSConfig :: "ty list \<Rightarrow> check_error + ty" where
  "TSConfig [] = TSConfig_body TSConfig_default"
| "TSConfig [Param] =
     (if assignable Param TSConfig_constraint
      then TSConfig_body Param
      else Inl ConstraintViolation)"
| "TSConfig args = Inl WrongArity"

text \<open>
  What the specification calls "a boolean \<open>strict\<close> field", read off the shape of the
  type: a boolean type is \<open>true\<close>, \<open>false\<close> or a union of those (\<open>boolean\<close> itself is
  \<open>true | false\<close>); an object type has the field when it declares \<open>strict\<close> at a boolean
  type, and a union has it when every member does.
\<close>

fun is_boolean_type :: "ty \<Rightarrow> bool" where
  "is_boolean_type (TBoolLit b) = True"
| "is_boolean_type (TUnion a b) = (is_boolean_type a \<and> is_boolean_type b)"
| "is_boolean_type T = False"

fun has_boolean_strict :: "ty \<Rightarrow> bool" where
  "has_boolean_strict (TObject fs) =
     (case map_of fs ''strict'' of None \<Rightarrow> False | Some s \<Rightarrow> is_boolean_type s)"
| "has_boolean_strict (TUnion a b) = (has_boolean_strict a \<and> has_boolean_strict b)"
| "has_boolean_strict T = False"

subsection \<open>The chart-configuration sketch\<close>

text \<open>
  \<^verbatim>\<open>
  const width = 800;
  type Width = typeof width;
  \<close>
  The declared type of a variable initialised with a literal: a \<open>const\<close> keeps the literal
  type, a \<open>let\<close> or \<open>var\<close> widens it to the base type.  \<open>typeof x\<close> in a type position is
  the declared type of \<open>x\<close>.
\<close>

datatype decl_kind = Const | Let

datatype literal = NumLiteral rat | StrLiteral string | BoolLiteral bool

fun literal_type :: "literal \<Rightarrow> ty" where
  "literal_type (NumLiteral n) = TNumLit n"
| "literal_type (StrLiteral s) = TStrLit s"
| "literal_type (BoolLiteral b) = TBoolLit b"

fun widen :: "ty \<Rightarrow> ty" where
  "widen (TNumLit n) = TNumber"
| "widen (TStrLit s) = TString"
| "widen (TBoolLit b) = TBoolean"
| "widen T = T"

fun typeof_decl :: "decl_kind \<times> literal \<Rightarrow> ty" where
  "typeof_decl (Const, e) = literal_type e"
| "typeof_decl (Let, e) = widen (literal_type e)"

definition width :: "decl_kind \<times> literal" where
  "width = (Const, NumLiteral 800)"

definition Width :: ty where
  "Width = typeof_decl width"

subsection \<open>Helper lemmas\<close>

lemma assignable_boolean: "assignable s TBoolean = is_boolean_type s"
  unfolding TBoolean_def by (induction s) auto

lemma assignable_strict: "assignable P TSConfig_constraint = has_boolean_strict P"
  unfolding TSConfig_constraint_def
  by (induction P) (auto simp: assignable_boolean split: option.splits)

lemma strict_lookup: "has_boolean_strict P \<Longrightarrow> \<exists>s. indexed_access P ''strict'' = Some s"
  by (induction P) (auto split: option.splits)

subsection \<open>Claims about the generic aliases\<close>

text \<open>
  C5: \<open>GroceryItem\<close> and \<open>GroceryStore\<close> put no constraint and no default on their
  parameters.  Whatever types are supplied, the instantiation is accepted and each field
  has exactly the supplied type; with an argument missing it is rejected, there being no
  default.  \<open>CapreseSalad\<close> has \<open>name\<close> exactly \<open>'Caprese Salad'\<close>, \<open>price\<close> exactly \<open>14.99\<close>
  and \<open>inStock\<close> exactly \<open>true\<close>, none widened to \<open>string\<close>, \<open>number\<close> or \<open>boolean\<close>.
\<close>

theorem GroceryItem_exact_fields:
  "accepted (GroceryItem [Name, Price, InStock])
   \<and> field_type (GroceryItem [Name, Price, InStock]) ''name'' = Some Name
   \<and> field_type (GroceryItem [Name, Price, InStock]) ''price'' = Some Price
   \<and> field_type (GroceryItem [Name, Price, InStock]) ''inStock'' = Some InStock
   \<and> accepted (GroceryStore [Name, City])
   \<and> field_type (GroceryStore [Name, City]) ''name'' = Some Name
   \<and> field_type (GroceryStore [Name, City]) ''city'' = Some City
   \<and> GroceryItem [Name, Price] = Inl WrongArity
   \<and> GroceryStore [Name] = Inl WrongArity
   \<and> field_type CapreseSalad ''name'' = Some (TStrLit ''Caprese Salad'')
   \<and> field_type CapreseSalad ''price'' = Some (TNumLit 14.99)
   \<and> field_type CapreseSalad ''inStock'' = Some (TBoolLit True)
   \<and> field_type CapreseSalad ''name'' \<noteq> Some TString
   \<and> field_type CapreseSalad ''price'' \<noteq> Some TNumber
   \<and> field_type CapreseSalad ''inStock'' \<noteq> Some TBoolean"
  by (simp add: CapreseSalad_def TBoolean_def)

theorem GroceryItem_exact_fields_witness:
  "field_type (GroceryItem [TString, TNumLit 3, TBoolean]) ''name'' = Some TString
   \<and> field_type (GroceryItem [TString, TNumLit 3, TBoolean]) ''price'' = Some (TNumLit 3)
   \<and> field_type (GroceryItem [TString, TNumLit 3, TBoolean]) ''inStock'' = Some TBoolean
   \<and> field_type (GroceryStore [TString, TStrLit ''New York'']) ''city''
       = Some (TStrLit ''New York'')"
  using GroceryItem_exact_fields [of TString "TNumLit 3" TBoolean "TStrLit ''New York''"]
  by simp

text \<open>
  C7: \<open>ApiRequest<Data>\<close> with one argument has \<open>method\<close> exactly \<open>'GET'\<close>;
  \<open>ApiRequest<Data, Method>\<close> has \<open>method\<close> of type \<open>Method\<close> and \<open>data\<close> of type \<open>Data\<close>.
\<close>

theorem ApiRequest_method:
  "field_type (ApiRequest [Data]) ''method'' = Some (TStrLit ''GET'')
   \<and> field_type (ApiRequest [Data]) ''data'' = Some Data
   \<and> field_type (ApiRequest [Data, Method]) ''method'' = Some Method
   \<and> field_type (ApiRequest [Data, Method]) ''data'' = Some Data"
  by (simp add: ApiRequest_body_def ApiRequest_Method_default_def)

theorem ApiRequest_method_witness:
  "field_type (ApiRequest [TNumber]) ''method'' = Some (TStrLit ''GET'')
   \<and> field_type (ApiRequest [TNumber, TStrLit ''POST'']) ''method'' = Some (TStrLit ''POST'')
   \<and> field_type (ApiRequest [TNumber, TStrLit ''POST'']) ''data'' = Some TNumber"
  using ApiRequest_method [of TNumber "TStrLit ''POST''"] by simp

text \<open>
  C6: the \<open>strict\<close> field of \<open>TSConfig\<close> is the lookup \<open>Param['strict']\<close>.  With no
  argument it is \<open>true\<close>, from the default; for \<open>TSConfig<{strict: false}>\<close> it is \<open>false\<close>; a
  parameter with a supplementary field, \<open>{strict: false, extra: 1}\<close>, is accepted and
  \<open>strict\<close> is \<open>false\<close>.  For every accepted parameter the field is the parameter's own
  \<open>strict\<close> type.
\<close>

theorem TSConfig_strict_is_lookup:
  "field_type (TSConfig []) ''strict'' = Some (TBoolLit True)
   \<and> field_type (TSConfig [TObject [(''strict'', TBoolLit False)]]) ''strict''
       = Some (TBoolLit False)
   \<and> accepted (TSConfig [TObject [(''strict'', TBoolLit False), (''extra'', TNumLit 1)]])
   \<and> field_type (TSConfig [TObject [(''strict'', TBoolLit False), (''extra'', TNumLit 1)]])
        ''strict'' = Some (TBoolLit False)
   \<and> (accepted (TSConfig [Param]) \<longrightarrow>
        field_type (TSConfig [Param]) ''strict'' = indexed_access Param ''strict'')"
proof -
  have "field_type (TSConfig [Param]) ''strict'' = indexed_access Param ''strict''"
    if "accepted (TSConfig [Param])"
    using that by (auto simp: TSConfig_body_def split: if_splits option.splits)
  then show ?thesis
    by (simp add: TSConfig_body_def TSConfig_default_def TSConfig_constraint_def TBoolean_def)
qed

theorem TSConfig_strict_is_lookup_witness:
  "accepted (TSConfig [TObject [(''strict'', TBoolean)]])
   \<and> field_type (TSConfig [TObject [(''strict'', TBoolean)]]) ''strict'' = Some TBoolean"
proof -
  have a: "accepted (TSConfig [TObject [(''strict'', TBoolean)]])"
    by (simp add: TSConfig_body_def TSConfig_constraint_def TBoolean_def)
  with TSConfig_strict_is_lookup [of "TObject [(''strict'', TBoolean)]"] show ?thesis
    by simp
qed

text \<open>
  C8: \<open>TSConfig<Param>\<close> is accepted exactly when \<open>Param\<close> has a boolean \<open>strict\<close> field.  A
  parameter without one is rejected by the check as a constraint violation; a parameter
  with one resolves to a type.
\<close>

theorem TSConfig_constraint_checked:
  "(accepted (TSConfig [Param]) = has_boolean_strict Param)
   \<and> (\<not> has_boolean_strict Param \<longrightarrow> TSConfig [Param] = Inl ConstraintViolation)
   \<and> (has_boolean_strict Param \<longrightarrow> (\<exists>s. TSConfig [Param] = Inr (TObject [(''strict'', s)])))"
proof (cases "has_boolean_strict Param")
  case True
  from strict_lookup [OF True] obtain s where "indexed_access Param ''strict'' = Some s" ..
  with True show ?thesis by (simp add: assignable_strict TSConfig_body_def)
next
  case False
  then show ?thesis by (simp add: assignable_strict)
qed

theorem TSConfig_constraint_checked_witness:
  "TSConfig [TObject [(''strict'', TString)]] = Inl ConstraintViolation
   \<and> TSConfig [TObject [(''lenient'', TBoolean)]] = Inl ConstraintViolation
   \<and> TSConfig [TNumber] = Inl ConstraintViolation
   \<and> accepted (TSConfig [TObject [(''strict'', TBoolean)]])
   \<and> accepted (TSConfig [TUnion (TObject [(''strict'', TBoolLit True)])
                                 (TObject [(''strict'', TBoolLit False), (''x'', TString)])])"
  using TSConfig_constraint_checked [of "TObject [(''strict'', TString)]"]
    TSConfig_constraint_checked [of "TObject [(''lenient'', TBoolean)]"]
    TSConfig_constraint_checked [of TNumber]
    TSConfig_constraint_checked [of "TObject [(''strict'', TBoolean)]"]
    TSConfig_constraint_checked
      [of "TUnion (TObject [(''strict'', TBoolLit True)])
                  (TObject [(''strict'', TBoolLit False), (''x'', TString)])"]
  by (simp add: TBoolean_def)

text \<open>
  C10: \<open>width\<close> is declared with \<open>const\<close>, so \<open>typeof width\<close> is the literal type \<open>800\<close> and
  not \<open>number\<close>; declared with \<open>let\<close> it would have been \<open>number\<close>.
\<close>

theorem Width_is_literal:
  "Width = TNumLit 800 \<and> Width \<noteq> TNumber \<and> typeof_decl (Let, snd width) = TNumber"
  by (simp add: Width_def width_def)

section \<open>The generic functions\<close>

text \<open>
  \<^verbatim>\<open>
  const identity = <T,> (param: T) : T => { return param };
  const mapArray = <T, U> (arr: Array<T>, fn :(param: T) => U ) => arr.map(fn);
  \<close>

  Arrays are objects with identity, so that "the input array is not changed" says
  something: the heap is the list of the allocated arrays, an array reference is an index
  into it, and a call returns its result together with the heap it leaves.  An array may
  have holes: an element is \<open>Some v\<close> or \<open>None\<close> for an index with no property.  Values are
  untyped at run time; \<open>'v\<close> is the universe of values and the type parameters \<open>T\<close> and \<open>U\<close>
  are erased.

  A function may be called with fewer arguments than it reads, a missing argument being
  \<open>undefined\<close>: a callback takes its element and, optionally, an index and an array.  The
  declared type \<open>(param: T) => U\<close> admits every such function, for instance
  \<open>(x: number, i?: number) => ...\<close>.  \<open>call1 fn x\<close> is the call \<open>fn(x)\<close>.  A callback is a
  function of its arguments, without side effects.

  \<open>Array.prototype.map\<close> reads the length once, creates a new array, and for
  \<open>k = 0, ..., len - 1\<close>, when the array has an element at \<open>k\<close>, calls the callback with
  the element, the index and the array and stores the result at index \<open>k\<close> of the new
  array; at a hole it calls nothing and leaves a hole.  \<open>mapArray\<close> hands \<open>fn\<close> itself to
  \<open>map\<close>.
\<close>

type_synonym 'v array = "'v option list"

type_synonym 'v heap = "'v array list"

type_synonym 'v callback = "'v \<Rightarrow> nat option \<Rightarrow> 'v array option \<Rightarrow> 'v"

definition identity :: "'v \<Rightarrow> 'v" where
  "identity param = param"

definition call1 :: "'v callback \<Rightarrow> 'v \<Rightarrow> 'v" where
  "call1 fn x = fn x None None"

function map_loop :: "'v callback \<Rightarrow> 'v array \<Rightarrow> nat \<Rightarrow> nat \<Rightarrow> 'v array \<Rightarrow> 'v array" where
  "map_loop callbackfn obj len k A =
     (if k < len
      then (case obj ! k of
              None \<Rightarrow> map_loop callbackfn obj len (Suc k) (A @ [None])
            | Some kValue \<Rightarrow>
                map_loop callbackfn obj len (Suc k)
                  (A @ [Some (callbackfn kValue (Some k) (Some obj))]))
      else A)"
  by pat_completeness auto
termination
  by (relation "measure (\<lambda>(callbackfn, obj, len, k, A). len - k)") auto

declare map_loop.simps [simp del]

definition Array_map :: "'v heap \<Rightarrow> nat \<Rightarrow> 'v callback \<Rightarrow> nat \<times> 'v heap" where
  "Array_map h this callbackfn =
     (let obj = h ! this;
          len = length obj;
          A = map_loop callbackfn obj len 0 []
      in (length h, h @ [A]))"

definition mapArray :: "'v heap \<Rightarrow> nat \<Rightarrow> 'v callback \<Rightarrow> nat \<times> 'v heap" where
  "mapArray h arr fn = Array_map h arr fn"

text \<open>A callback that does not read its second and third argument.\<close>

definition reads_element_only :: "'v callback \<Rightarrow> bool" where
  "reads_element_only fn = (\<forall>x i a. fn x i a = fn x None None)"

lemma map_loop_eq:
  "k \<le> len \<Longrightarrow>
   map_loop callbackfn obj len k A =
     A @ map (\<lambda>i. map_option (\<lambda>v. callbackfn v (Some i) (Some obj)) (obj ! i)) [k..<len]"
proof (induction callbackfn obj len k A rule: map_loop.induct)
  case (1 callbackfn obj len k A)
  let ?f = "\<lambda>i. map_option (\<lambda>v. callbackfn v (Some i) (Some obj)) (obj ! i)"
  show ?case
  proof (cases "k < len")
    case True
    have step: "map_loop callbackfn obj len k A = map_loop callbackfn obj len (Suc k) (A @ [?f k])"
      using True by (subst map_loop.simps) (simp split: option.splits)
    have "map_loop callbackfn obj len (Suc k) (A @ [?f k])
        = (A @ [?f k]) @ map ?f [Suc k..<len]"
    proof (cases "obj ! k")
      case None
      with "1.IH"(1) [OF True None] True show ?thesis by simp
    next
      case (Some v)
      with "1.IH"(2) [OF True Some] True show ?thesis by simp
    qed
    also have "\<dots> = A @ map ?f [k..<len]"
      using True by (simp add: upt_conv_Cons)
    finally show ?thesis using step by simp
  next
    case False
    with "1.prems" have "k = len" by simp
    then show ?thesis by (subst map_loop.simps) simp
  qed
qed

lemma map_loop_all:
  "map_loop fn xs (length xs) 0 []
     = map (\<lambda>i. map_option (\<lambda>v. fn v (Some i) (Some xs)) (xs ! i)) [0..<length xs]"
  by (simp add: map_loop_eq)

lemma mapArray_result:
  "mapArray h arr fn =
     (length h,
      h @ [map (\<lambda>i. map_option (\<lambda>v. fn v (Some i) (Some (h ! arr))) (h ! arr ! i))
             [0..<length (h ! arr)]])"
  by (simp add: mapArray_def Array_map_def Let_def map_loop_all)

text \<open>
  C4 as stated: every element of the result is \<open>f\<close> applied to the element of \<open>xs\<close> at
  the same index.  The transform \<open>(x, i?) => x * 10 + (i ?? 0)\<close> has the declared type;
  on \<open>[1, 2, 3]\<close> the result is \<open>[10, 21, 32]\<close>, while \<open>f\<close> applied to \<open>2\<close> is \<open>20\<close> and \<open>f\<close>
  applied to \<open>3\<close> is \<open>30\<close>.
\<close>

theorem mapArray_maps_elements_counterexample:
  "mapArray [[Some 1, Some 2, Some 3]] 0
      (\<lambda>x i a. x * 10 + (case i of None \<Rightarrow> 0 | Some k \<Rightarrow> int k))
     = (1, [[Some 1, Some 2, Some 3], [Some 10, Some 21, Some 32]])
   \<and> call1 (\<lambda>x i a. x * 10 + (case i of None \<Rightarrow> 0 | Some k \<Rightarrow> int k)) 2 = 20
   \<and> call1 (\<lambda>x i a. x * 10 + (case i of None \<Rightarrow> 0 | Some k \<Rightarrow> int k)) 3 = 30"
  by (simp add: mapArray_result call1_def upt_rec)

text \<open>
  C4, amended: for an allocated input array \<open>xs\<close> of length \<open>n\<close> and a transform \<open>fn\<close>
  without side effects, \<open>mapArray(xs, fn)\<close> returns a new array of length \<open>n\<close>; at every
  index \<open>i < n\<close> where \<open>xs\<close> has an element, the result has the value of the call
  \<open>fn(xs[i], i, xs)\<close>, which is \<open>fn\<close> applied to \<open>xs[i]\<close> whenever \<open>fn\<close> does not read its
  second and third argument; where \<open>xs\<close> has a hole, so has the result.  Order is
  preserved, and the call leaves the input array, and every other array that existed, as
  it was.
\<close>

theorem mapArray_maps_elements:
  assumes "arr < length h" and "mapArray h arr fn = (r, h')"
  shows "length (h' ! r) = length (h ! arr)
     \<and> (\<forall>i < length (h ! arr). \<forall>x. h ! arr ! i = Some x \<longrightarrow>
           h' ! r ! i = Some (fn x (Some i) (Some (h ! arr))))
     \<and> (\<forall>i < length (h ! arr). h ! arr ! i = None \<longrightarrow> h' ! r ! i = None)
     \<and> (reads_element_only fn \<longrightarrow>
          (\<forall>i < length (h ! arr). \<forall>x. h ! arr ! i = Some x \<longrightarrow>
             h' ! r ! i = Some (call1 fn x)))
     \<and> h' ! arr = h ! arr
     \<and> (\<forall>a < length h. h' ! a = h ! a)
     \<and> r \<noteq> arr
     \<and> length h' = Suc (length h)"
proof -
  let ?res = "map (\<lambda>i. map_option (\<lambda>v. fn v (Some i) (Some (h ! arr))) (h ! arr ! i))
                [0..<length (h ! arr)]"
  from assms(2) have r: "r = length h" and h': "h' = h @ [?res]"
    by (simp_all add: mapArray_result)
  have res: "h' ! r = ?res" by (simp add: r h')
  have unary: "fn x (Some i) (Some (h ! arr)) = call1 fn x" if "reads_element_only fn" for x i
    using that by (simp add: reads_element_only_def call1_def)
  show ?thesis
    using assms(1) by (auto simp: res unary) (simp_all add: r h' nth_append)
qed

theorem mapArray_maps_elements_witness:
  "mapArray [[Some 1, None, Some 3], [Some 7]] 0 (\<lambda>x i a. x * 10)
     = (2, [[Some 1, None, Some 3], [Some 7], [Some 10, None, Some (30 :: int)]])"
proof -
  let ?h = "[[Some 1, None, Some 3], [Some (7 :: int)]]"
  let ?fn = "\<lambda>(x :: int) (i :: nat option) (a :: int array option). x * 10"
  obtain r h' where m: "mapArray ?h 0 ?fn = (r, h')"
    by (cases "mapArray ?h 0 ?fn") auto
  have lt: "(0 :: nat) < length ?h" by simp
  have ro: "reads_element_only ?fn" by (simp add: reads_element_only_def)
  note t = mapArray_maps_elements [OF lt m]
  from t have r: "r = 2" and len: "length h' = 3"
    using m by (simp_all add: mapArray_result)
  from t have l3: "length (h' ! r) = 3" by simp
  from t ro have e0: "h' ! r ! 0 = Some 10" and e2: "h' ! r ! 2 = Some 30"
    by (simp_all add: call1_def)
  from t have e1: "h' ! r ! 1 = None" by simp
  from l3 e0 e1 e2 have res: "h' ! r = [Some 10, None, Some 30]"
    by (intro nth_equalityI) (auto simp: less_Suc_eq numeral_3_eq_3 numeral_2_eq_2)
  from t have "h' ! 0 = [Some 1, None, Some 3]" and "h' ! 1 = [Some 7]" by simp_all
  with res r len have "h' = [[Some 1, None, Some 3], [Some 7], [Some 10, None, Some 30]]"
    by (intro nth_equalityI) (auto simp: less_Suc_eq numeral_3_eq_3 numeral_2_eq_2)
  with m r show ?thesis by simp
qed

end
